theory Spec2Isabelle
  imports Complex_Main
begin

section \<open>The ADM1 to ASM1 translator block\<close>

text \<open>
  The unit model \<^verbatim>\<open>TranslatorData\<close> of \<^verbatim>\<open>translator_adm1_asm1.py\<close> owns four mutable
  parameters, two state blocks indexed by time, and a fixed collection of equality
  constraints. A constraint rule returns a symbolic relational expression over the
  variables of the two state blocks and the parameters; the expressions are embedded as
  a datatype and read over the reals, as the equations they denote.
\<close>

subsection \<open>Variables, parameters and expressions\<close>

datatype state_block = properties_in | properties_out

datatype var_name =
    flow_vol
  | temperature
  | pressure
  | alkalinity
  | conc_mass_comp string

datatype param_name = N_I | N_aa | N_bac | i_ec

type_synonym 't var_ref = "state_block \<times> 't \<times> var_name"

datatype 't expr =
    Num real
  | Var state_block 't var_name
  | Param param_name
  | Plus "'t expr" "'t expr"
  | Minus "'t expr" "'t expr"
  | Times "'t expr" "'t expr"

datatype 't constr = Equality "'t expr" "'t expr"

datatype exception = ValueError | KeyError

text \<open>The value of an expression under parameter values \<open>p\<close> and variable values \<open>v\<close>.\<close>

primrec eval :: "(param_name \<Rightarrow> real) \<Rightarrow> ('t var_ref \<Rightarrow> real) \<Rightarrow> 't expr \<Rightarrow> real" where
  "eval p v (Num c) = c"
| "eval p v (Var b t x) = v (b, t, x)"
| "eval p v (Param n) = p n"
| "eval p v (Plus a b) = eval p v a + eval p v b"
| "eval p v (Minus a b) = eval p v a - eval p v b"
| "eval p v (Times a b) = eval p v a * eval p v b"

primrec holds :: "(param_name \<Rightarrow> real) \<Rightarrow> ('t var_ref \<Rightarrow> real) \<Rightarrow> 't constr \<Rightarrow> bool" where
  "holds p v (Equality l r) = (eval p v l = eval p v r)"

text \<open>The variables and the parameters an expression mentions, left to right.\<close>

primrec expr_vars :: "'t expr \<Rightarrow> 't var_ref list" where
  "expr_vars (Num c) = []"
| "expr_vars (Var b t x) = [(b, t, x)]"
| "expr_vars (Param n) = []"
| "expr_vars (Plus a b) = expr_vars a @ expr_vars b"
| "expr_vars (Minus a b) = expr_vars a @ expr_vars b"
| "expr_vars (Times a b) = expr_vars a @ expr_vars b"

primrec expr_params :: "'t expr \<Rightarrow> param_name list" where
  "expr_params (Num c) = []"
| "expr_params (Var b t x) = []"
| "expr_params (Param n) = [n]"
| "expr_params (Plus a b) = expr_params a @ expr_params b"
| "expr_params (Minus a b) = expr_params a @ expr_params b"
| "expr_params (Times a b) = expr_params a @ expr_params b"

primrec constr_vars :: "'t constr \<Rightarrow> 't var_ref list" where
  "constr_vars (Equality l r) = expr_vars l @ expr_vars r"

primrec constr_params :: "'t constr \<Rightarrow> param_name list" where
  "constr_params (Equality l r) = expr_params l @ expr_params r"

text \<open>Python's \<^verbatim>\<open>sum\<close> over a generator: it starts from 0 and adds from the left.\<close>

definition sum_py :: "'t expr list \<Rightarrow> 't expr" where
  "sum_py es = foldl Plus (Num 0) es"

subsection \<open>Parameters and component sets declared by build\<close>

text \<open>
  \<^verbatim>\<open>Param(initialize=..., mutable=True)\<close>: the initial values. The parameters are
  mutable, so the rules mention them symbolically and a model carries their values.
\<close>

primrec param_initialize :: "param_name \<Rightarrow> real" where
  "param_initialize N_I = 0.06 / 14"
| "param_initialize N_aa = 0.007"
| "param_initialize N_bac = 0.08 / 14"
| "param_initialize i_ec = 0.06"

definition readily_biodegradable :: "string list" where
  "readily_biodegradable = [''S_su'', ''S_aa'', ''S_fa'', ''S_va'', ''S_bu'', ''S_pro'', ''S_ac'']"

definition slowly_biodegradable :: "string list" where
  "slowly_biodegradable =
     [''X_c'', ''X_ch'', ''X_pr'', ''X_li'', ''X_su'', ''X_aa'', ''X_fa'', ''X_c4'',
      ''X_pro'', ''X_ac'', ''X_h2'']"

definition zero_flow_components :: "string list" where
  "zero_flow_components = [''X_BH'', ''X_BA'', ''X_P'', ''S_O'', ''S_NO'']"

subsection \<open>The constraint rules\<close>

definition eq_flow_vol_rule :: "'t \<Rightarrow> 't constr" where
  "eq_flow_vol_rule t =
     Equality (Var properties_out t flow_vol) (Var properties_in t flow_vol)"

definition eq_temperature_rule :: "'t \<Rightarrow> 't constr" where
  "eq_temperature_rule t =
     Equality (Var properties_out t temperature) (Var properties_in t temperature)"

definition eq_pressure_rule :: "'t \<Rightarrow> 't constr" where
  "eq_pressure_rule t =
     Equality (Var properties_out t pressure) (Var properties_in t pressure)"

definition eq_SI_conc :: "'t \<Rightarrow> 't constr" where
  "eq_SI_conc t =
     Equality (Var properties_out t (conc_mass_comp ''S_I''))
              (Var properties_in t (conc_mass_comp ''S_I''))"

definition eq_XI_conc :: "'t \<Rightarrow> 't constr" where
  "eq_XI_conc t =
     Equality (Var properties_out t (conc_mass_comp ''X_I''))
              (Var properties_in t (conc_mass_comp ''X_I''))"

definition eq_SS_conc :: "'t \<Rightarrow> 't constr" where
  "eq_SS_conc t =
     Equality (Var properties_out t (conc_mass_comp ''S_S''))
              (sum_py (map (\<lambda>i. Var properties_in t (conc_mass_comp i)) readily_biodegradable))"

definition eq_XS_conc :: "'t \<Rightarrow> 't constr" where
  "eq_XS_conc t =
     Equality (Var properties_out t (conc_mass_comp ''X_S''))
              (sum_py (map (\<lambda>i. Var properties_in t (conc_mass_comp i)) slowly_biodegradable))"

definition eq_Snh_conc :: "'t \<Rightarrow> 't constr" where
  "eq_Snh_conc t =
     Equality (Var properties_out t (conc_mass_comp ''S_NH''))
              (Var properties_in t (conc_mass_comp ''S_IN''))"

definition eq_Snd_conc :: "'t \<Rightarrow> 't constr" where
  "eq_Snd_conc t =
     Equality (Var properties_out t (conc_mass_comp ''S_ND''))
       (Plus (Times (Var properties_in t (conc_mass_comp ''S_I'')) (Param N_I))
             (Times (Var properties_in t (conc_mass_comp ''S_I'')) (Param N_aa)))"

definition eq_Xnd_conc :: "'t \<Rightarrow> 't constr" where
  "eq_Xnd_conc t =
     Equality (Var properties_out t (conc_mass_comp ''X_ND''))
       (Minus
         (Plus
           (Plus
             (Plus
               (Times (Param N_bac)
                 (Plus (Plus (Plus (Plus (Plus (Plus
                   (Var properties_in t (conc_mass_comp ''X_su''))
                   (Var properties_in t (conc_mass_comp ''X_aa'')))
                   (Var properties_in t (conc_mass_comp ''X_fa'')))
                   (Var properties_in t (conc_mass_comp ''X_c4'')))
                   (Var properties_in t (conc_mass_comp ''X_pro'')))
                   (Var properties_in t (conc_mass_comp ''X_ac'')))
                   (Var properties_in t (conc_mass_comp ''X_h2''))))
               (Times (Var properties_in t (conc_mass_comp ''X_I'')) (Param N_I)))
             (Times (Var properties_in t (conc_mass_comp ''X_c'')) (Param N_I)))
           (Times (Var properties_in t (conc_mass_comp ''X_pr'')) (Param N_aa)))
         (Times (Times (Var properties_in t (conc_mass_comp ''X_I'')) (Param N_I))
                (Param i_ec)))"

definition return_Salk :: "'t \<Rightarrow> 't constr" where
  "return_Salk t =
     Equality (Var properties_out t alkalinity)
              (Var properties_in t (conc_mass_comp ''S_IC''))"

definition return_zero_flow_comp :: "'t \<Rightarrow> string \<Rightarrow> 't constr" where
  "return_zero_flow_comp t i =
     Equality (Var properties_out t (conc_mass_comp i)) (Num (1 / 10 ^ 6))"

subsection \<open>build\<close>

text \<open>
  The property packages are collaborators outside this file. What build needs of them is
  the index set of \<^verbatim>\<open>conc_mass_comp\<close> in the state blocks they construct: indexing
  \<^verbatim>\<open>conc_mass_comp\<close> with a name outside it raises \<^verbatim>\<open>KeyError\<close> while the rule runs,
  and build does not complete. The scalar fields \<^verbatim>\<open>flow_vol\<close>, \<^verbatim>\<open>temperature\<close>,
  \<^verbatim>\<open>pressure\<close> and \<^verbatim>\<open>alkalinity\<close> are taken to exist, as the collaborator interface
  requires. Constructing the state blocks and the ports is the framework's work; what
  build itself contributes is the parameters and the constraints.
\<close>

fun indexed :: "string list \<Rightarrow> string list \<Rightarrow> 't var_ref \<Rightarrow> bool" where
  "indexed inlet_comps outlet_comps (properties_in, t, conc_mass_comp j) = (j \<in> set inlet_comps)"
| "indexed inlet_comps outlet_comps (properties_out, t, conc_mass_comp j) = (j \<in> set outlet_comps)"
| "indexed inlet_comps outlet_comps (b, t, x) = True"

text \<open>
  The constraints in the order build declares them; a decorator
  \<^verbatim>\<open>@self.Constraint(time)\<close> runs its rule at every time index, and
  \<^verbatim>\<open>@self.Constraint(time, zero_flow_components)\<close> at every pair. The list \<open>time\<close> is
  the flowsheet's time set in its order; being a set, it repeats no index.
\<close>

definition declared_constraints :: "'t list \<Rightarrow> 't constr list" where
  "declared_constraints time =
     map eq_flow_vol_rule time @
     map eq_temperature_rule time @
     map eq_pressure_rule time @
     map eq_SI_conc time @
     map eq_XI_conc time @
     map eq_SS_conc time @
     map eq_XS_conc time @
     map eq_Snh_conc time @
     map eq_Snd_conc time @
     map eq_Xnd_conc time @
     map return_Salk time @
     concat (map (\<lambda>t. map (return_zero_flow_comp t) zero_flow_components) time)"

record 't translator =
  params :: "param_name \<Rightarrow> real"
  constraints :: "'t constr list"

definition build :: "string list \<Rightarrow> string list \<Rightarrow> 't list \<Rightarrow> exception + 't translator" where
  "build inlet_comps outlet_comps time =
     (if list_all (\<lambda>c. list_all (indexed inlet_comps outlet_comps) (constr_vars c))
           (declared_constraints time)
      then Inr \<lparr>params = param_initialize, constraints = declared_constraints time\<rparr>
      else Inl KeyError)"



subsection \<open>Configuration\<close>

text \<open>
  Keyword arguments are untyped Python values. \<^verbatim>\<open>In([False])\<close> is the configuration
  library's membership validator: it returns the value when \<^verbatim>\<open>value in [False]\<close> and
  raises \<^verbatim>\<open>ValueError\<close> otherwise. Python's \<^verbatim>\<open>in\<close> on a list compares with
  \<^verbatim>\<open>==\<close>, under which a boolean equals the integer of the same numeric value. The library
  stores \<^verbatim>\<open>None\<close> without consulting the domain, which is what lets the property-package
  options of the same block default to \<^verbatim>\<open>None\<close> under a validating domain.
\<close>

datatype py_value = PyNone | PyBool bool | PyInt int | PyStr string

fun py_eq :: "py_value \<Rightarrow> py_value \<Rightarrow> bool" where
  "py_eq PyNone PyNone = True"
| "py_eq (PyBool a) (PyBool b) = (a = b)"
| "py_eq (PyBool a) (PyInt n) = (n = (if a then 1 else 0))"
| "py_eq (PyInt n) (PyBool a) = (n = (if a then 1 else 0))"
| "py_eq (PyInt a) (PyInt b) = (a = b)"
| "py_eq (PyStr a) (PyStr b) = (a = b)"
| "py_eq x y = False"

definition In :: "py_value list \<Rightarrow> py_value \<Rightarrow> exception + py_value" where
  "In dom_values v = (if list_ex (py_eq v) dom_values then Inr v else Inl ValueError)"

record config_value =
  cv_domain :: "py_value \<Rightarrow> exception + py_value"
  cv_default :: py_value

definition set_value :: "config_value \<Rightarrow> py_value \<Rightarrow> exception + py_value" where
  "set_value cv v = (if v = PyNone then Inr v else cv_domain cv v)"

text \<open>The two steady-state flags as \<^verbatim>\<open>CONFIG.declare\<close> declares them.\<close>

definition CONFIG_dynamic :: config_value where
  "CONFIG_dynamic = \<lparr>cv_domain = In [PyBool False], cv_default = PyBool False\<rparr>"

definition CONFIG_has_holdup :: config_value where
  "CONFIG_has_holdup = \<lparr>cv_domain = In [PyBool False], cv_default = PyBool False\<rparr>"

text \<open>
  The keyword arguments a caller may give for the two flags (\<open>None\<close>: the argument is
  left out and the default is used), and the configuration once validated. The other
  options of the block have validators of their own and do not interact with these.
\<close>

record config_args =
  arg_dynamic :: "py_value option"
  arg_has_holdup :: "py_value option"

record config =
  dynamic :: py_value
  has_holdup :: py_value

definition declared_value :: "config_value \<Rightarrow> py_value option \<Rightarrow> exception + py_value" where
  "declared_value cv given =
     set_value cv (case given of None \<Rightarrow> cv_default cv | Some v \<Rightarrow> v)"

definition validate_config :: "config_args \<Rightarrow> exception + config" where
  "validate_config a =
     (case declared_value CONFIG_dynamic (arg_dynamic a) of
        Inl e \<Rightarrow> Inl e
      | Inr d \<Rightarrow>
          (case declared_value CONFIG_has_holdup (arg_has_holdup a) of
             Inl e \<Rightarrow> Inl e
           | Inr h \<Rightarrow> Inr \<lparr>dynamic = d, has_holdup = h\<rparr>))"

subsection \<open>initialize\_build\<close>

text \<open>
  \<^verbatim>\<open>initialize_build\<close> only sequences calls into the framework: the solver factory,
  the two state blocks' \<^verbatim>\<open>initialize\<close>, the degrees-of-freedom count, the solver, the
  condition formatter and \<^verbatim>\<open>release_state\<close>. They are parameters of the model; each
  call that can raise returns a sum, and an exception of a callee propagates, since the
  method has no handler. The model \<open>'m\<close> is the block as the framework sees it, \<open>'f\<close> the
  flags, \<open>'o\<close> the solver object, \<open>'r\<close> the solver's results, \<open>'a\<close> a dictionary of arguments.
\<close>

record ('m, 'a, 'o, 'f, 'r, 'e) framework =
  get_solver :: "string option \<Rightarrow> 'a option \<Rightarrow> 'e + 'o"
  properties_in_initialize ::
    "int \<Rightarrow> 'a option \<Rightarrow> string option \<Rightarrow> 'a option \<Rightarrow> bool \<Rightarrow> 'm \<Rightarrow> 'e + 'f \<times> 'm"
  properties_out_initialize ::
    "int \<Rightarrow> 'a option \<Rightarrow> string option \<Rightarrow> 'a option \<Rightarrow> 'm \<Rightarrow> 'e + 'm"
  count_degrees_of_freedom :: "'m \<Rightarrow> int"
  opt_solve :: "'o \<Rightarrow> 'm \<Rightarrow> 'e + 'r \<times> 'm"
  condition :: "'r \<Rightarrow> string"
  properties_in_release_state :: "'f \<Rightarrow> int \<Rightarrow> 'm \<Rightarrow> 'e + 'm"

text \<open>What the method does that a caller can observe, in order.\<close>

datatype 'f event =
    Initialize_in bool
  | Initialize_out
  | Solve
  | Log_info string
  | Log_warning string
  | Release_state 'f

definition incomplete_warning :: string where
  "incomplete_warning =
     ''Initialization incomplete. Degrees of freedom '' @
     ''were not zero. Please provide sufficient number '' @
     ''of constraints linking the state variables '' @
     ''between the two state blocks.''"

text \<open>
  The last statement of the method. The result is \<open>Inr\<close> of the final model when the
  method returns and \<open>Inl\<close> of the exception when a callee raised, paired with the
  events up to there.
\<close>

definition release ::
  "('m, 'a, 'o, 'f, 'r, 'e) framework \<Rightarrow> 'f \<Rightarrow> int \<Rightarrow> 'm \<Rightarrow> 'f event list
     \<Rightarrow> ('e + 'm) \<times> 'f event list" where
  "release fw flags outlvl blk tr =
     (case properties_in_release_state fw flags outlvl blk of
        Inl e \<Rightarrow> (Inl e, tr @ [Release_state flags])
      | Inr blk' \<Rightarrow> (Inr blk', tr @ [Release_state flags]))"

definition initialize_build ::
  "('m, 'a, 'o, 'f, 'r, 'e) framework \<Rightarrow> 'm \<Rightarrow> 'a option \<Rightarrow> 'a option \<Rightarrow> int
     \<Rightarrow> string option \<Rightarrow> 'a option \<Rightarrow> ('e + 'm) \<times> 'f event list" where
  "initialize_build fw blk state_args_in state_args_out outlvl solver optarg =
     (case get_solver fw solver optarg of
        Inl e \<Rightarrow> (Inl e, [])
      | Inr opt \<Rightarrow>
     (case properties_in_initialize fw outlvl optarg solver state_args_in True blk of
        Inl e \<Rightarrow> (Inl e, [Initialize_in True])
      | Inr (flags, blk1) \<Rightarrow>
     (case properties_out_initialize fw outlvl optarg solver state_args_out blk1 of
        Inl e \<Rightarrow> (Inl e, [Initialize_in True, Initialize_out])
      | Inr blk2 \<Rightarrow>
     (if count_degrees_of_freedom fw blk2 = 0 then
        (case opt_solve fw opt blk2 of
           Inl e \<Rightarrow> (Inl e, [Initialize_in True, Initialize_out, Solve])
         | Inr (res, blk3) \<Rightarrow>
             release fw flags outlvl blk3
               [Initialize_in True, Initialize_out, Solve,
                Log_info (''Initialization Complete '' @ condition fw res @ ''.'')])
      else
        release fw flags outlvl blk2
          [Initialize_in True, Initialize_out, Log_warning incomplete_warning]))))"

subsection \<open>Concrete inputs\<close>

text \<open>
  Inputs on which the theorems below are exercised: the component names of an ADM1 and
  of an ASM1 property package, and a small framework whose model is the number of free
  inlet variables. Its inlet initialization fixes all of them but \<open>k\<close> and returns how
  many it fixed; its solver reports an infeasible problem.
\<close>

definition adm1_components :: "string list" where
  "adm1_components =
     [''S_su'', ''S_aa'', ''S_fa'', ''S_va'', ''S_bu'', ''S_pro'', ''S_ac'', ''S_h2'',
      ''S_ch4'', ''S_IC'', ''S_IN'', ''S_I'', ''X_c'', ''X_ch'', ''X_pr'', ''X_li'', ''X_su'',
      ''X_aa'', ''X_fa'', ''X_c4'', ''X_pro'', ''X_ac'', ''X_h2'', ''X_I'', ''S_cat'', ''S_an'']"

definition asm1_components :: "string list" where
  "asm1_components =
     [''S_I'', ''S_S'', ''X_I'', ''X_S'', ''X_BH'', ''X_BA'', ''X_P'', ''S_O'', ''S_NO'',
      ''S_NH'', ''S_ND'', ''X_ND'']"

definition example_framework :: "nat \<Rightarrow> (nat, unit, string, nat, string, string) framework" where
  "example_framework k =
     \<lparr>get_solver = (\<lambda>solver optarg. Inr ''ipopt''),
      properties_in_initialize =
        (\<lambda>outlvl optarg solver state_args hold_state n.
           if hold_state then Inr (n - k, min n k) else Inr (0, n)),
      properties_out_initialize = (\<lambda>outlvl optarg solver state_args n. Inr n),
      count_degrees_of_freedom = int,
      opt_solve = (\<lambda>opt n. Inr (''infeasible'', n)),
      condition = (\<lambda>res. res),
      properties_in_release_state = (\<lambda>flags outlvl n. Inr (n + flags))\<rparr>"

section \<open>Properties\<close>

subsection \<open>The constraints build declares\<close>

lemmas rule_defs =
  eq_flow_vol_rule_def eq_temperature_rule_def eq_pressure_rule_def eq_SI_conc_def
  eq_XI_conc_def eq_SS_conc_def eq_XS_conc_def eq_Snh_conc_def eq_Snd_conc_def
  eq_Xnd_conc_def return_Salk_def return_zero_flow_comp_def sum_py_def
  readily_biodegradable_def slowly_biodegradable_def zero_flow_components_def

lemma build_Inr:
  "build ic oc time = Inr m \<Longrightarrow> constraints m = declared_constraints time \<and> params m = param_initialize"
  by (auto simp add: build_def split: if_splits)

lemma build_example:
  "build adm1_components asm1_components [0::nat] =
     Inr \<lparr>params = param_initialize, constraints = declared_constraints [0]\<rparr>"
  by (simp add: build_def declared_constraints_def adm1_components_def asm1_components_def rule_defs)

lemma in_declared:
  assumes "t \<in> set time"
  shows "eq_flow_vol_rule t \<in> set (declared_constraints time)"
    and "eq_temperature_rule t \<in> set (declared_constraints time)"
    and "eq_pressure_rule t \<in> set (declared_constraints time)"
    and "eq_SI_conc t \<in> set (declared_constraints time)"
    and "eq_XI_conc t \<in> set (declared_constraints time)"
    and "eq_SS_conc t \<in> set (declared_constraints time)"
    and "eq_XS_conc t \<in> set (declared_constraints time)"
    and "eq_Snh_conc t \<in> set (declared_constraints time)"
    and "eq_Snd_conc t \<in> set (declared_constraints time)"
    and "eq_Xnd_conc t \<in> set (declared_constraints time)"
    and "return_Salk t \<in> set (declared_constraints time)"
    and "i \<in> set zero_flow_components \<Longrightarrow> return_zero_flow_comp t i \<in> set (declared_constraints time)"
  using assms by (auto simp add: declared_constraints_def)

text \<open>
  Claim C1. For every time index \<open>t\<close> of a completed build, the three constraints
  \<^verbatim>\<open>eq_flow_vol_rule\<close>, \<^verbatim>\<open>eq_temperature_rule\<close> and \<^verbatim>\<open>eq_pressure_rule\<close> are declared
  at \<open>t\<close>, and each holds exactly when the outlet's flow\_vol, temperature or pressure
  equals the inlet's.
\<close>

theorem flow_temperature_pressure_pass_through:
  assumes "build inlet_comps outlet_comps time = Inr m" and "t \<in> set time"
  shows "eq_flow_vol_rule t \<in> set (constraints m)
       \<and> eq_temperature_rule t \<in> set (constraints m)
       \<and> eq_pressure_rule t \<in> set (constraints m)
       \<and> (holds p v (eq_flow_vol_rule t) \<longleftrightarrow>
            v (properties_out, t, flow_vol) = v (properties_in, t, flow_vol))
       \<and> (holds p v (eq_temperature_rule t) \<longleftrightarrow>
            v (properties_out, t, temperature) = v (properties_in, t, temperature))
       \<and> (holds p v (eq_pressure_rule t) \<longleftrightarrow>
            v (properties_out, t, pressure) = v (properties_in, t, pressure))"
  using build_Inr [OF assms(1)] in_declared(1-3) [OF assms(2)]
  by (simp add: eq_flow_vol_rule_def eq_temperature_rule_def eq_pressure_rule_def)

text \<open>The theorem at the ADM1 and ASM1 component lists, time index 0.\<close>

theorem flow_temperature_pressure_pass_through_witness:
  "build adm1_components asm1_components [0::nat] =
     Inr \<lparr>params = param_initialize, constraints = declared_constraints [0]\<rparr>
   \<and> (0::nat) \<in> set [0]
   \<and> eq_flow_vol_rule (0::nat) \<in> set (declared_constraints [0])
   \<and> eq_temperature_rule (0::nat) \<in> set (declared_constraints [0])
   \<and> eq_pressure_rule (0::nat) \<in> set (declared_constraints [0])
   \<and> holds param_initialize (\<lambda>r. 1) (eq_flow_vol_rule (0::nat))
   \<and> holds param_initialize (\<lambda>r. 1) (eq_temperature_rule (0::nat))
   \<and> holds param_initialize (\<lambda>r. 1) (eq_pressure_rule (0::nat))"
  using flow_temperature_pressure_pass_through
    [OF build_example, of 0 param_initialize "\<lambda>r. 1"] build_example
  by simp

text \<open>
  Claim C2. For every time index \<open>t\<close>, the declared constraint \<^verbatim>\<open>eq_SS_conc\<close> holds
  exactly when S\_S of the outlet is the sum of the seven inlet concentrations S\_su,
  S\_aa, S\_fa, S\_va, S\_bu, S\_pro, S\_ac, and \<^verbatim>\<open>eq_XS_conc\<close> exactly when X\_S of the
  outlet is the sum of the eleven inlet concentrations X\_c, X\_ch, X\_pr, X\_li, X\_su,
  X\_aa, X\_fa, X\_c4, X\_pro, X\_ac, X\_h2.
\<close>

theorem lumped_S_S_and_X_S:
  assumes "build inlet_comps outlet_comps time = Inr m" and "t \<in> set time"
  shows "eq_SS_conc t \<in> set (constraints m)
       \<and> eq_XS_conc t \<in> set (constraints m)
       \<and> (holds p v (eq_SS_conc t) \<longleftrightarrow>
            v (properties_out, t, conc_mass_comp ''S_S'') =
              (\<Sum>i\<leftarrow>[''S_su'', ''S_aa'', ''S_fa'', ''S_va'', ''S_bu'', ''S_pro'', ''S_ac''].
                 v (properties_in, t, conc_mass_comp i)))
       \<and> (holds p v (eq_XS_conc t) \<longleftrightarrow>
            v (properties_out, t, conc_mass_comp ''X_S'') =
              (\<Sum>i\<leftarrow>[''X_c'', ''X_ch'', ''X_pr'', ''X_li'', ''X_su'', ''X_aa'', ''X_fa'',
                    ''X_c4'', ''X_pro'', ''X_ac'', ''X_h2''].
                 v (properties_in, t, conc_mass_comp i)))"
  using build_Inr [OF assms(1)] in_declared(6,7) [OF assms(2)]
  by (simp add: eq_SS_conc_def eq_XS_conc_def sum_py_def readily_biodegradable_def
      slowly_biodegradable_def add.assoc)

text \<open>The theorem at the ADM1 and ASM1 component lists, time index 0.\<close>

theorem lumped_S_S_and_X_S_witness:
  "build adm1_components asm1_components [0::nat] =
     Inr \<lparr>params = param_initialize, constraints = declared_constraints [0]\<rparr>
   \<and> (0::nat) \<in> set [0]
   \<and> eq_SS_conc (0::nat) \<in> set (declared_constraints [0])
   \<and> eq_XS_conc (0::nat) \<in> set (declared_constraints [0])
   \<and> holds param_initialize
        (\<lambda>r. if r = (properties_out, 0, conc_mass_comp ''S_S'') then 7
             else if r = (properties_out, 0, conc_mass_comp ''X_S'') then 11 else 1)
        (eq_SS_conc (0::nat))
   \<and> holds param_initialize
        (\<lambda>r. if r = (properties_out, 0, conc_mass_comp ''S_S'') then 7
             else if r = (properties_out, 0, conc_mass_comp ''X_S'') then 11 else 1)
        (eq_XS_conc (0::nat))"
  using lumped_S_S_and_X_S
    [OF build_example, of 0 param_initialize
      "\<lambda>r. if r = (properties_out, 0, conc_mass_comp ''S_S'') then 7
           else if r = (properties_out, 0, conc_mass_comp ''X_S'') then 11 else 1"]
    build_example
  by simp

text \<open>
  Claim C3. For every time index \<open>t\<close> and every component \<open>i\<close> among X\_BH, X\_BA, X\_P,
  S\_O, S\_NO, the declared constraint \<^verbatim>\<open>return_zero_flow_comp\<close> holds exactly when the
  outlet concentration of \<open>i\<close> is \<open>1e-6\<close>. The constraint mentions that outlet variable
  only, no inlet variable and no parameter, so whether it holds does not change with
  the inlet values or the parameters.
\<close>

theorem zero_flow_components_fixed:
  assumes "build inlet_comps outlet_comps time = Inr m" and "t \<in> set time"
    and "i \<in> {''X_BH'', ''X_BA'', ''X_P'', ''S_O'', ''S_NO''}"
  shows "return_zero_flow_comp t i \<in> set (constraints m)
       \<and> (holds p v (return_zero_flow_comp t i) \<longleftrightarrow>
            v (properties_out, t, conc_mass_comp i) = 1 / 10 ^ 6)
       \<and> constr_vars (return_zero_flow_comp t i) = [(properties_out, t, conc_mass_comp i)]
       \<and> constr_params (return_zero_flow_comp t i) = []
       \<and> (v' (properties_out, t, conc_mass_comp i) = v (properties_out, t, conc_mass_comp i) \<longrightarrow>
            holds p' v' (return_zero_flow_comp t i) = holds p v (return_zero_flow_comp t i))"
proof -
  have "i \<in> set zero_flow_components"
    using assms(3) by (auto simp add: zero_flow_components_def)
  from in_declared(12) [OF assms(2) this] build_Inr [OF assms(1)]
  show ?thesis by (simp add: return_zero_flow_comp_def)
qed

text \<open>The theorem at the ADM1 and ASM1 component lists, time index 0.\<close>

theorem zero_flow_components_fixed_witness:
  "build adm1_components asm1_components [0::nat] =
     Inr \<lparr>params = param_initialize, constraints = declared_constraints [0]\<rparr>
   \<and> (0::nat) \<in> set [0]
   \<and> ''S_O'' \<in> {''X_BH'', ''X_BA'', ''X_P'', ''S_O'', ''S_NO''}
   \<and> return_zero_flow_comp (0::nat) ''S_O'' \<in> set (declared_constraints [0])
   \<and> holds param_initialize (\<lambda>r. 1 / 10 ^ 6) (return_zero_flow_comp (0::nat) ''S_O'')
   \<and> \<not> holds param_initialize (\<lambda>r. 0) (return_zero_flow_comp (0::nat) ''S_O'')"
  using zero_flow_components_fixed
    [OF build_example, of 0 "''S_O''" param_initialize "\<lambda>r. 1 / 10 ^ 6"]
    zero_flow_components_fixed
    [OF build_example, of 0 "''S_O''" param_initialize "\<lambda>r. 0"]
    build_example
  by simp

text \<open>
  Claim C4. For every time index \<open>t\<close>, the declared constraint \<^verbatim>\<open>eq_Snd_conc\<close> holds
  exactly when S\_ND of the outlet is S\_I of the inlet times \<open>N_I + N_aa\<close>. With the
  parameter values build initializes, \<open>N_I = 0.06 / 14\<close> and \<open>N_aa = 0.007\<close>, and an inlet
  S\_I of 1, the constrained value is \<open>0.06 / 14 + 0.007\<close>, which is within \<open>1e-6\<close> of
  \<open>0.011286\<close>.
\<close>

theorem S_ND_nitrogen_balance:
  assumes "build inlet_comps outlet_comps time = Inr m" and "t \<in> set time"
  shows "eq_Snd_conc t \<in> set (constraints m)
       \<and> (holds p v (eq_Snd_conc t) \<longleftrightarrow>
            v (properties_out, t, conc_mass_comp ''S_ND'') =
              v (properties_in, t, conc_mass_comp ''S_I'') * (p N_I + p N_aa))
       \<and> params m N_I = 0.06 / 14 \<and> params m N_aa = 0.007
       \<and> (v (properties_in, t, conc_mass_comp ''S_I'') = 1 \<longrightarrow>
            (holds (params m) v (eq_Snd_conc t) \<longleftrightarrow>
               v (properties_out, t, conc_mass_comp ''S_ND'') = 0.06 / 14 + 0.007))
       \<and> \<bar>(0.06 / 14 + 0.007) - (0.011286::real)\<bar> < 0.000001"
  using build_Inr [OF assms(1)] in_declared(9) [OF assms(2)]
  by (simp add: eq_Snd_conc_def distrib_left)

text \<open>The theorem at the ADM1 and ASM1 component lists, time index 0.\<close>

theorem S_ND_nitrogen_balance_witness:
  "build adm1_components asm1_components [0::nat] =
     Inr \<lparr>params = param_initialize, constraints = declared_constraints [0]\<rparr>
   \<and> (0::nat) \<in> set [0]
   \<and> eq_Snd_conc (0::nat) \<in> set (declared_constraints [0])
   \<and> holds param_initialize
        (\<lambda>r. if r = (properties_out, 0, conc_mass_comp ''S_ND'') then 0.06 / 14 + 0.007 else 1)
        (eq_Snd_conc (0::nat))"
  using S_ND_nitrogen_balance
    [OF build_example, of 0 param_initialize
      "\<lambda>r. if r = (properties_out, 0, conc_mass_comp ''S_ND'') then 0.06 / 14 + 0.007 else 1"]
    build_example
  by simp

text \<open>
  Claim C5. For every time index \<open>t\<close>, the declared constraint \<^verbatim>\<open>eq_Xnd_conc\<close> holds
  exactly when X\_ND of the outlet is
  \<open>N_bac * (X_su + X_aa + X_fa + X_c4 + X_pro + X_ac + X_h2) + N_I * X_I + N_I * X_c +
  N_aa * X_pr - X_I * N_I * i_ec\<close> over the inlet concentrations.
\<close>

theorem X_ND_nitrogen_balance:
  assumes "build inlet_comps outlet_comps time = Inr m" and "t \<in> set time"
  shows "eq_Xnd_conc t \<in> set (constraints m)
       \<and> (holds p v (eq_Xnd_conc t) \<longleftrightarrow>
            v (properties_out, t, conc_mass_comp ''X_ND'') =
              p N_bac * (v (properties_in, t, conc_mass_comp ''X_su'')
                       + v (properties_in, t, conc_mass_comp ''X_aa'')
                       + v (properties_in, t, conc_mass_comp ''X_fa'')
                       + v (properties_in, t, conc_mass_comp ''X_c4'')
                       + v (properties_in, t, conc_mass_comp ''X_pro'')
                       + v (properties_in, t, conc_mass_comp ''X_ac'')
                       + v (properties_in, t, conc_mass_comp ''X_h2''))
              + p N_I * v (properties_in, t, conc_mass_comp ''X_I'')
              + p N_I * v (properties_in, t, conc_mass_comp ''X_c'')
              + p N_aa * v (properties_in, t, conc_mass_comp ''X_pr'')
              - v (properties_in, t, conc_mass_comp ''X_I'') * p N_I * p i_ec)"
  using build_Inr [OF assms(1)] in_declared(10) [OF assms(2)]
  by (simp add: eq_Xnd_conc_def mult.commute)

text \<open>The theorem at the ADM1 and ASM1 component lists, time index 0.\<close>

theorem X_ND_nitrogen_balance_witness:
  "build adm1_components asm1_components [0::nat] =
     Inr \<lparr>params = param_initialize, constraints = declared_constraints [0]\<rparr>
   \<and> (0::nat) \<in> set [0]
   \<and> eq_Xnd_conc (0::nat) \<in> set (declared_constraints [0])
   \<and> holds (\<lambda>n. 1)
        (\<lambda>r. if r = (properties_out, 0, conc_mass_comp ''X_ND'') then 9 else 1)
        (eq_Xnd_conc (0::nat))"
  using X_ND_nitrogen_balance
    [OF build_example, of 0 "\<lambda>n. 1"
      "\<lambda>r. if r = (properties_out, 0, conc_mass_comp ''X_ND'') then 9 else 1"]
    build_example
  by simp

text \<open>
  Claim C10. For every time index \<open>t\<close>, the declared constraint \<^verbatim>\<open>eq_Snh_conc\<close> holds
  exactly when S\_NH of the outlet equals S\_IN of the inlet. It mentions no parameter and
  no variable other than these two.
\<close>

theorem S_NH_pass_through:
  assumes "build inlet_comps outlet_comps time = Inr m" and "t \<in> set time"
  shows "eq_Snh_conc t \<in> set (constraints m)
       \<and> (holds p v (eq_Snh_conc t) \<longleftrightarrow>
            v (properties_out, t, conc_mass_comp ''S_NH'') =
              v (properties_in, t, conc_mass_comp ''S_IN''))
       \<and> constr_params (eq_Snh_conc t) = []
       \<and> constr_vars (eq_Snh_conc t) =
            [(properties_out, t, conc_mass_comp ''S_NH''), (properties_in, t, conc_mass_comp ''S_IN'')]"
  using build_Inr [OF assms(1)] in_declared(8) [OF assms(2)]
  by (simp add: eq_Snh_conc_def)

text \<open>The theorem at the ADM1 and ASM1 component lists, time index 0.\<close>

theorem S_NH_pass_through_witness:
  "build adm1_components asm1_components [0::nat] =
     Inr \<lparr>params = param_initialize, constraints = declared_constraints [0]\<rparr>
   \<and> (0::nat) \<in> set [0]
   \<and> eq_Snh_conc (0::nat) \<in> set (declared_constraints [0])
   \<and> holds param_initialize (\<lambda>r. 2) (eq_Snh_conc (0::nat))"
  using S_NH_pass_through [OF build_example, of 0 param_initialize "\<lambda>r. 2"] build_example
  by simp

subsection \<open>Degrees of freedom\<close>














subsection \<open>Configuration validation\<close>

lemma py_eq_False: "py_eq v (PyBool False) \<longleftrightarrow> v = PyBool False \<or> v = PyInt 0"
  by (cases v) auto

lemma declared_value_flag:
  "declared_value \<lparr>cv_domain = In [PyBool False], cv_default = PyBool False\<rparr> g =
     (if g \<in> {None, Some PyNone, Some (PyBool False), Some (PyInt 0)}
      then Inr (case g of None \<Rightarrow> PyBool False | Some v \<Rightarrow> v)
      else Inl ValueError)"
  by (cases g) (auto simp add: declared_value_def set_value_def In_def py_eq_False)

text \<open>
  Claim C6, as the code has it. Validation of \<^verbatim>\<open>dynamic\<close> and \<^verbatim>\<open>has_holdup\<close> accepts a
  configuration exactly when each of the two options is left out, or given \<^verbatim>\<open>None\<close>, or
  given a value that compares equal to \<^verbatim>\<open>False\<close>, which among booleans, integers and
  strings are \<^verbatim>\<open>False\<close> and the integer \<^verbatim>\<open>0\<close>; it stores the value given, or the default
  \<^verbatim>\<open>False\<close>. Every other configuration is rejected with \<^verbatim>\<open>ValueError\<close>.
\<close>

theorem config_validation_of_flags:
  "validate_config a =
     (if arg_dynamic a \<in> {None, Some PyNone, Some (PyBool False), Some (PyInt 0)}
       \<and> arg_has_holdup a \<in> {None, Some PyNone, Some (PyBool False), Some (PyInt 0)}
      then Inr \<lparr>dynamic = (case arg_dynamic a of None \<Rightarrow> PyBool False | Some v \<Rightarrow> v),
                has_holdup = (case arg_has_holdup a of None \<Rightarrow> PyBool False | Some v \<Rightarrow> v)\<rparr>
      else Inl ValueError)"
  unfolding validate_config_def CONFIG_dynamic_def CONFIG_has_holdup_def declared_value_flag
  by simp

text \<open>
  The claim as stated, that any value other than \<^verbatim>\<open>False\<close> is rejected, fails:
  \<^verbatim>\<open>dynamic=0\<close> with \<^verbatim>\<open>has_holdup=None\<close> is accepted, and neither value is
  \<^verbatim>\<open>False\<close>.
\<close>

theorem config_validation_counterexample:
  "validate_config \<lparr>arg_dynamic = Some (PyInt 0), arg_has_holdup = Some PyNone\<rparr> =
     Inr \<lparr>dynamic = PyInt 0, has_holdup = PyNone\<rparr>
   \<and> PyInt 0 \<noteq> PyBool False \<and> PyNone \<noteq> PyBool False"
  by (simp add: validate_config_def CONFIG_dynamic_def CONFIG_has_holdup_def declared_value_def
      set_value_def In_def)

lemma config_rejects_True:
  "validate_config \<lparr>arg_dynamic = Some (PyBool True), arg_has_holdup = None\<rparr> = Inl ValueError"
  "validate_config \<lparr>arg_dynamic = None, arg_has_holdup = Some (PyBool True)\<rparr> = Inl ValueError"
  by (simp_all add: validate_config_def CONFIG_dynamic_def CONFIG_has_holdup_def
      declared_value_def set_value_def In_def)

lemma config_accepts_defaults:
  "validate_config \<lparr>arg_dynamic = None, arg_has_holdup = None\<rparr> =
     Inr \<lparr>dynamic = PyBool False, has_holdup = PyBool False\<rparr>"
  by (simp add: validate_config_def CONFIG_dynamic_def CONFIG_has_holdup_def
      declared_value_def set_value_def In_def)

subsection \<open>initialize\_build\<close>

lemma example_run_solve:
  "initialize_build (example_framework 0) 3 None None 0 None None =
     (Inr 3, [Initialize_in True, Initialize_out, Solve,
              Log_info ''Initialization Complete infeasible.'', Release_state 3])"
  by (simp add: initialize_build_def release_def example_framework_def)

lemma example_run_warning:
  "initialize_build (example_framework 1) 3 None None 0 None None =
     (Inr 3, [Initialize_in True, Initialize_out, Log_warning incomplete_warning, Release_state 2])"
  by (simp add: initialize_build_def release_def example_framework_def)

text \<open>
  Claim C8. Once the solver object is made and the two state-block initializations have
  returned: if the degrees of freedom are zero, the solver is invoked exactly once and
  the condition of its result is logged, whatever that result is; otherwise the warning
  is logged and the solver is not invoked. In both cases the method goes on to
  \<^verbatim>\<open>release_state\<close> and returns when that returns: the solver's result is never
  inspected, so a failed or non-optimal result raises nothing.
\<close>

theorem initialize_build_solves_once_or_warns:
  assumes "get_solver fw solver optarg = Inr opt"
    and "properties_in_initialize fw outlvl optarg solver state_args_in True blk = Inr (flags, blk_in)"
    and "properties_out_initialize fw outlvl optarg solver state_args_out blk_in = Inr blk_out"
  shows "(count_degrees_of_freedom fw blk_out = 0 \<longrightarrow>
            opt_solve fw opt blk_out = Inr (res, blk_solved) \<longrightarrow>
            properties_in_release_state fw flags outlvl blk_solved = Inr blk_final \<longrightarrow>
              initialize_build fw blk state_args_in state_args_out outlvl solver optarg =
                (Inr blk_final,
                 [Initialize_in True, Initialize_out, Solve,
                  Log_info (''Initialization Complete '' @ condition fw res @ ''.''),
                  Release_state flags])
              \<and> count_list
                   (snd (initialize_build fw blk state_args_in state_args_out outlvl solver optarg))
                   Solve = 1)
       \<and> (count_degrees_of_freedom fw blk_out \<noteq> 0 \<longrightarrow>
            properties_in_release_state fw flags outlvl blk_out = Inr blk_final \<longrightarrow>
              initialize_build fw blk state_args_in state_args_out outlvl solver optarg =
                (Inr blk_final,
                 [Initialize_in True, Initialize_out, Log_warning incomplete_warning,
                  Release_state flags])
              \<and> count_list
                   (snd (initialize_build fw blk state_args_in state_args_out outlvl solver optarg))
                   Solve = 0)"
  using assms by (simp add: initialize_build_def release_def)

text \<open>
  The theorem at the example framework: with no free variable left the solver runs once
  and reports an infeasible problem, and the method returns; with one left the warning
  is logged.
\<close>

theorem initialize_build_solves_once_or_warns_witness:
  "initialize_build (example_framework 0) 3 None None 0 None None =
     (Inr 3, [Initialize_in True, Initialize_out, Solve,
              Log_info ''Initialization Complete infeasible.'', Release_state 3])
   \<and> count_list (snd (initialize_build (example_framework 0) 3 None None 0 None None)) Solve = 1
   \<and> initialize_build (example_framework 1) 3 None None 0 None None =
     (Inr 3, [Initialize_in True, Initialize_out, Log_warning incomplete_warning, Release_state 2])
   \<and> count_list (snd (initialize_build (example_framework 1) 3 None None 0 None None)) Solve = 0"
  using initialize_build_solves_once_or_warns
      [where fw = "example_framework 0" and solver = None and optarg = None and opt = "''ipopt''"
         and outlvl = 0 and state_args_in = None and state_args_out = None and blk = 3
         and flags = 3 and blk_in = 0 and blk_out = 0 and res = "''infeasible''" and blk_solved = 0
         and blk_final = 3]
    initialize_build_solves_once_or_warns
      [where fw = "example_framework 1" and solver = None and optarg = None and opt = "''ipopt''"
         and outlvl = 0 and state_args_in = None and state_args_out = None and blk = 3
         and flags = 2 and blk_in = 1 and blk_out = 1 and res = "''infeasible''" and blk_solved = 1
         and blk_final = 3]
  by (simp add: example_framework_def)

text \<open>
  Claim C9. Whenever \<^verbatim>\<open>initialize_build\<close> returns, its last action was
  \<^verbatim>\<open>release_state\<close> on the flags that the inlet block's \<^verbatim>\<open>initialize\<close>, called with
  \<^verbatim>\<open>hold_state=True\<close>, returned; this holds after the solve as well as after the warning.
\<close>

theorem initialize_build_releases_inlet_flags:
  assumes "initialize_build fw blk state_args_in state_args_out outlvl solver optarg = (Inr blk', tr)"
  shows "\<exists>flags blk1 blk3 pre.
           properties_in_initialize fw outlvl optarg solver state_args_in True blk = Inr (flags, blk1)
         \<and> properties_in_release_state fw flags outlvl blk3 = Inr blk'
         \<and> tr = Initialize_in True # pre @ [Release_state flags]
         \<and> (Solve \<in> set pre \<or> Log_warning incomplete_warning \<in> set pre)"
  using assms
  by (auto simp add: initialize_build_def release_def split: sum.splits prod.splits if_splits)

text \<open>The theorem at the two runs of the example framework.\<close>

theorem initialize_build_releases_inlet_flags_witness:
  "initialize_build (example_framework 1) 3 None None 0 None None =
     (Inr 3, [Initialize_in True, Initialize_out, Log_warning incomplete_warning, Release_state 2])
   \<and> (\<exists>flags blk1 blk3 pre.
           properties_in_initialize (example_framework 1) 0 None None None True 3 = Inr (flags, blk1)
         \<and> properties_in_release_state (example_framework 1) flags 0 blk3 = Inr (3::nat)
         \<and> [Initialize_in True, Initialize_out, Log_warning incomplete_warning, Release_state 2]
             = Initialize_in True # pre @ [Release_state flags]
         \<and> (Solve \<in> set pre \<or> Log_warning incomplete_warning \<in> set pre))
   \<and> initialize_build (example_framework 0) 3 None None 0 None None =
     (Inr 3, [Initialize_in True, Initialize_out, Solve,
              Log_info ''Initialization Complete infeasible.'', Release_state 3])
   \<and> (\<exists>flags blk1 blk3 pre.
           properties_in_initialize (example_framework 0) 0 None None None True 3 = Inr (flags, blk1)
         \<and> properties_in_release_state (example_framework 0) flags 0 blk3 = Inr (3::nat)
         \<and> [Initialize_in True, Initialize_out, Solve,
             Log_info ''Initialization Complete infeasible.'', Release_state 3]
             = Initialize_in True # pre @ [Release_state flags]
         \<and> (Solve \<in> set pre \<or> Log_warning incomplete_warning \<in> set pre))"
  using initialize_build_releases_inlet_flags [OF example_run_warning]
    initialize_build_releases_inlet_flags [OF example_run_solve]
    example_run_warning example_run_solve
  by simp


end
